theory Spec2Isabelle
  imports Complex_Main
begin

section \<open>Values\<close>

text \<open>
  The handlers of \<^verbatim>\<open>app.js\<close> read JSON request bodies and Mongoose documents.
  A field of a body or of a document is either absent (\<open>None\<close>, JavaScript's
  \<^verbatim>\<open>undefined\<close>) or holds a value of the type its schema path declares: a number for
  the \<^verbatim>\<open>Number\<close> paths, a string for the \<^verbatim>\<open>String\<close> paths. JSON \<^verbatim>\<open>null\<close>,
  booleans, strings in numeric positions, arrays and nested objects are not values of these
  types: what happens to them is decided by the coercions of JavaScript and by the casts of
  Mongoose, which are not part of \<^verbatim>\<open>app.js\<close>.

  A JavaScript number is an IEEE 754 double. A finite double is the rational it denotes
  (the two zeros are one value here: JSON prints both as \<^verbatim>\<open>0\<close>); the infinities, which
  an overflow produces, and \<^verbatim>\<open>NaN\<close>, which arithmetic on an absent operand produces, are
  values of their own. A number that a body or a document holds is a finite double.
\<close>

datatype jsnum = NaN | PInf | NInf | Fin rat

text \<open>\<^verbatim>\<open>ToNumber\<close> on a numeric field: \<^verbatim>\<open>undefined\<close> becomes \<^verbatim>\<open>NaN\<close>.\<close>

fun ToNumber :: "rat option \<Rightarrow> jsnum" where
  "ToNumber None = NaN"
| "ToNumber (Some n) = Fin n"

subsection \<open>Rounding to the nearest double\<close>

text \<open>
  Every arithmetic operation of JavaScript returns the double nearest to the exact result,
  the one with the even significand when two are equally near. A double is \<open>m * 2 ^ e\<close>
  with \<open>\<bar>m\<bar> < 2 ^ 53\<close> and \<open>- 1074 \<le> e \<le> 971\<close>.

  \<open>bitlen n\<close> is the number of binary digits of \<open>n\<close>, \<open>pow2 k\<close> is \<open>2 ^ k\<close> for an integer
  \<open>k\<close>, and \<open>exponent_of q\<close> is the integer \<open>k\<close> with \<open>2 ^ k \<le> \<bar>q\<bar> < 2 ^ (k + 1)\<close>, for
  \<open>q\<close> other than zero.
\<close>

function bitlen :: "int \<Rightarrow> int" where
  "bitlen n = (if n \<le> 0 then 0 else 1 + bitlen (n div 2))"
  by pat_completeness auto
termination
  by (relation "measure nat") auto

declare bitlen.simps [simp del]

definition pow2 :: "int \<Rightarrow> rat" where
  "pow2 k = (if 0 \<le> k then 2 ^ nat k else 1 / 2 ^ nat (- k))"

definition exponent_of :: "rat \<Rightarrow> int" where
  "exponent_of q =
     (if 1 \<le> \<bar>q\<bar> then bitlen \<lfloor>\<bar>q\<bar>\<rfloor> - 1
      else let k = bitlen \<lfloor>1 / \<bar>q\<bar>\<rfloor>
           in if pow2 (1 - k) \<le> \<bar>q\<bar> then 1 - k else - k)"

definition round_half_even :: "rat \<Rightarrow> int" where
  "round_half_even x =
     (let f = \<lfloor>x\<rfloor>; r = x - of_int f
      in if r < 1 / 2 then f else if 1 / 2 < r then f + 1 else if even f then f else f + 1)"

text \<open>
  The significand has 53 bits, fewer below \<open>2 ^ (- 1022)\<close> where the exponent stays at
  \<open>- 1074\<close>. The largest double is \<open>(2 ^ 53 - 1) * 2 ^ 971\<close>: a result that rounds beyond it
  is an infinity.
\<close>

definition round_double :: "rat \<Rightarrow> jsnum" where
  "round_double q =
     (if q = 0 then Fin 0
      else let e = max (exponent_of q - 52) (- 1074);
               m = round_half_even (q / pow2 e)
           in if 971 < e \<or> (e = 971 \<and> \<bar>m\<bar> = 2 ^ 53) then (if 0 < q then PInf else NInf)
              else Fin (of_int m * pow2 e))"

definition is_double :: "rat \<Rightarrow> bool" where
  "is_double q \<longleftrightarrow> round_double q = Fin q"

text \<open>The operators \<^verbatim>\<open>*\<close> and \<^verbatim>\<open>+\<close> on numbers, and \<^verbatim>\<open>/ 100\<close>.\<close>

fun num_mul :: "jsnum \<Rightarrow> jsnum \<Rightarrow> jsnum" where
  "num_mul NaN y = NaN"
| "num_mul x NaN = NaN"
| "num_mul (Fin a) (Fin b) = round_double (a * b)"
| "num_mul (Fin a) PInf = (if a = 0 then NaN else if 0 < a then PInf else NInf)"
| "num_mul (Fin a) NInf = (if a = 0 then NaN else if 0 < a then NInf else PInf)"
| "num_mul PInf (Fin b) = (if b = 0 then NaN else if 0 < b then PInf else NInf)"
| "num_mul NInf (Fin b) = (if b = 0 then NaN else if 0 < b then NInf else PInf)"
| "num_mul PInf PInf = PInf"
| "num_mul PInf NInf = NInf"
| "num_mul NInf PInf = NInf"
| "num_mul NInf NInf = PInf"

fun num_add :: "jsnum \<Rightarrow> jsnum \<Rightarrow> jsnum" where
  "num_add NaN y = NaN"
| "num_add x NaN = NaN"
| "num_add (Fin a) (Fin b) = round_double (a + b)"
| "num_add PInf NInf = NaN"
| "num_add NInf PInf = NaN"
| "num_add PInf y = PInf"
| "num_add NInf y = NInf"
| "num_add (Fin a) y = y"

fun div100 :: "jsnum \<Rightarrow> jsnum" where
  "div100 (Fin a) = round_double (a / 100)"
| "div100 x = x"

text \<open>
  Truthiness, as \<^verbatim>\<open>!amt\<close> tests it: \<^verbatim>\<open>undefined\<close> and \<^verbatim>\<open>0\<close> are falsy, every other
  number is truthy, the negative ones included.
\<close>

fun truthy :: "rat option \<Rightarrow> bool" where
  "truthy None = False"
| "truthy (Some n) = (n \<noteq> 0)"

section \<open>Documents\<close>

text \<open>The three Mongoose schemas (\<^verbatim>\<open>app.js\<close>, lines 20 to 48). No path is required.\<close>

record service =
  s_type :: "string option"
  s_description :: "string option"
  s_interestRate :: "rat option"
  s_maxAmount :: "rat option"
  s_tenure :: "rat option"
  s_imgUrl :: "string option"

record request =
  r_mobile :: "rat option"
  r_email :: "string option"
  r_amt :: "rat option"
  r_type :: "string option"
  r_msg :: "string option"
  r_code :: "string option"

record member =
  m_mobile :: "rat option"
  m_email :: "string option"
  m_occupation :: "string option"
  m_createpassword :: "string option"

section \<open>The document store\<close>

text \<open>
  The store holds the three collections, each in the order in which the database returns its
  documents, and whether the connection opened by \<^verbatim>\<open>mongoose.connect\<close> (line 12) is
  usable: the application keeps running when it is not, and every query then throws.
\<close>

record store =
  connected :: bool
  services :: "service list"
  requests :: "request list"
  members :: "member list"

datatype store_error = StoreError

text \<open>
  Modelled from the spec: the document store client (the Mongoose models \<^verbatim>\<open>Service\<close>,
  \<^verbatim>\<open>Request\<close> and \<^verbatim>\<open>Member\<close>), which \<^verbatim>\<open>app.js\<close> calls and does not define. Section 6
  of the specification gives its interface: \<^verbatim>\<open>find\<close>, \<^verbatim>\<open>findOne\<close>,
  \<^verbatim>\<open>findOneAndUpdate(collection, filter, patch)\<close> and \<^verbatim>\<open>findOneAndDelete\<close>; section 4.4
  says that a filter is an equality match and that an operation applies to the first
  document the store returns. So the first document that satisfies the filter is the one
  replaced, or removed.
\<close>

fun update_first :: "('a \<Rightarrow> bool) \<Rightarrow> ('a \<Rightarrow> 'a) \<Rightarrow> 'a list \<Rightarrow> 'a list" where
  "update_first P f [] = []"
| "update_first P f (x # xs) = (if P x then f x # xs else x # update_first P f xs)"

fun delete_first :: "('a \<Rightarrow> bool) \<Rightarrow> 'a list \<Rightarrow> 'a list" where
  "delete_first P [] = []"
| "delete_first P (x # xs) = (if P x then xs else x # delete_first P xs)"

text \<open>
  Modelled from the spec: the patch of \<^verbatim>\<open>findOneAndUpdate\<close>. Mongoose applies an update
  document without operators as a \<^verbatim>\<open>$set\<close>: a path that the update carries is overwritten,
  a path that it does not carry keeps its value. Both \<^verbatim>\<open>PUT\<close> handlers call the operation
  in this form and with the same options.
\<close>

fun override :: "'a option \<Rightarrow> 'a option \<Rightarrow> 'a option" where
  "override None old = old"
| "override (Some v) old = Some v"

definition set_request :: "request \<Rightarrow> request \<Rightarrow> request" where
  "set_request upd doc =
     \<lparr> r_mobile = override (r_mobile upd) (r_mobile doc),
       r_email = override (r_email upd) (r_email doc),
       r_amt = override (r_amt upd) (r_amt doc),
       r_type = override (r_type upd) (r_type doc),
       r_msg = override (r_msg upd) (r_msg doc),
       r_code = override (r_code upd) (r_code doc) \<rparr>"

text \<open>
  Modelled from the spec: the operations of the store client, each with the filter that its
  caller in \<^verbatim>\<open>app.js\<close> passes. An operation throws when the store is not reachable. With
  \<^verbatim>\<open>{ new: true }\<close>, \<^verbatim>\<open>findOneAndUpdate\<close> returns the document as it is after the update;
  \<^verbatim>\<open>findOneAndDelete\<close> returns the document it removed.
\<close>

definition Service_find :: "store \<Rightarrow> store_error + service list" where
  "Service_find st = (if connected st then Inr (services st) else Inl StoreError)"

definition Service_findOne :: "store \<Rightarrow> string \<Rightarrow> store_error + service option" where
  "Service_findOne st ty =
     (if connected st then Inr (find (\<lambda>s. s_type s = Some ty) (services st))
      else Inl StoreError)"

definition Request_findOne :: "store \<Rightarrow> rat option \<Rightarrow> store_error + request option" where
  "Request_findOne st mobile =
     (if connected st then Inr (find (\<lambda>r. r_mobile r = mobile) (requests st))
      else Inl StoreError)"

definition Request_findOneAndUpdate ::
  "store \<Rightarrow> rat option \<Rightarrow> request \<Rightarrow> store_error + (request option \<times> store)" where
  "Request_findOneAndUpdate st mobile upd =
     (if connected st then
        Inr (map_option (set_request upd) (find (\<lambda>r. r_mobile r = mobile) (requests st)),
             st\<lparr>requests := update_first (\<lambda>r. r_mobile r = mobile) (set_request upd) (requests st)\<rparr>)
      else Inl StoreError)"

definition Member_findOneAndUpdate ::
  "store \<Rightarrow> rat option \<Rightarrow> string \<Rightarrow> store_error + (member option \<times> store)" where
  "Member_findOneAndUpdate st mobile password =
     (if connected st then
        Inr (map_option (\<lambda>m. m\<lparr>m_createpassword := Some password\<rparr>)
               (find (\<lambda>m. m_mobile m = mobile) (members st)),
             st\<lparr>members := update_first (\<lambda>m. m_mobile m = mobile)
                              (\<lambda>m. m\<lparr>m_createpassword := Some password\<rparr>) (members st)\<rparr>)
      else Inl StoreError)"

definition Request_findOneAndDelete ::
  "store \<Rightarrow> rat option \<Rightarrow> store_error + (request option \<times> store)" where
  "Request_findOneAndDelete st mobile =
     (if connected st then
        Inr (find (\<lambda>r. r_mobile r = mobile) (requests st),
             st\<lparr>requests := delete_first (\<lambda>r. r_mobile r = mobile) (requests st)\<rparr>)
      else Inl StoreError)"

definition Member_findOneAndDelete ::
  "store \<Rightarrow> rat option \<Rightarrow> store_error + (member option \<times> store)" where
  "Member_findOneAndDelete st mobile =
     (if connected st then
        Inr (find (\<lambda>m. m_mobile m = mobile) (members st),
             st\<lparr>members := delete_first (\<lambda>m. m_mobile m = mobile) (members st)\<rparr>)
      else Inl StoreError)"

section \<open>Responses\<close>

text \<open>
  \<open>Json c v\<close> is \<^verbatim>\<open>res.json(v)\<close> with status \<open>c\<close>, \<open>Error c msg\<close> is
  \<^verbatim>\<open>res.status(c).json({ error: msg })\<close>, and \<open>Rejected\<close> is a handler without
  \<^verbatim>\<open>try\<close>/\<^verbatim>\<open>catch\<close> whose query threw: it sends nothing.
\<close>

datatype 'a response = Json nat 'a | Error nat string | Rejected

record brief_service =
  b_type :: "string option"
  b_description :: "string option"
  b_imgUrl :: "string option"

record calculation =
  totalAmount :: jsnum
  interest :: jsnum
  loanAmount :: "rat option"
  tenure :: "rat option"

text \<open>
  The message \<^verbatim>\<open>`Remittance of ${amt} for loan approved successfully`\<close>, kept as the
  amount that the template interpolates.
\<close>

datatype remittance_message = Remittance_approved "rat option"

section \<open>The handlers\<close>

text \<open>
  Each handler takes the store and what it reads of the request, and returns its response
  with the store it leaves behind. The names are the routes'.
\<close>

text \<open>\<^verbatim>\<open>GET /allservices\<close> (lines 82 to 98), the specification's \<^verbatim>\<open>listProducts\<close>.\<close>

definition allservices :: "store \<Rightarrow> brief_service list response \<times> store" where
  "allservices st =
     (case Service_find st of
        Inl e \<Rightarrow> (Error 500 ''Failed to fetch services'', st)
      | Inr found \<Rightarrow>
          if length found = 0 then (Error 404 ''No loan services available'', st)
          else (Json 200 (map (\<lambda>s. \<lparr> b_type = s_type s,
                                      b_description = s_description s,
                                      b_imgUrl = s_imgUrl s \<rparr>) found), st))"

text \<open>\<^verbatim>\<open>GET /service/:type\<close> (lines 101 to 111), the specification's \<^verbatim>\<open>getProduct\<close>.\<close>

definition service_by_type :: "store \<Rightarrow> string \<Rightarrow> service response \<times> store" where
  "service_by_type st ty =
     (case Service_findOne st ty of
        Inl e \<Rightarrow> (Error 500 ''Failed to fetch service details'', st)
      | Inr None \<Rightarrow> (Error 404 ''Service not found'', st)
      | Inr (Some s) \<Rightarrow> (Json 200 s, st))"

text \<open>
  \<^verbatim>\<open>POST /service/:type/calculate\<close> (lines 136 to 152), the specification's
  \<^verbatim>\<open>calculateInterest\<close>. \<open>amt\<close> and \<open>tenure\<close> are the two fields the handler takes from
  the body.
\<close>

definition calculate ::
  "store \<Rightarrow> string \<Rightarrow> rat option \<Rightarrow> rat option \<Rightarrow> calculation response \<times> store" where
  "calculate st ty amt tenure' =
     (case Service_findOne st ty of
        Inl e \<Rightarrow> (Rejected, st)
      | Inr None \<Rightarrow> (Error 404 ''Loan type not found'', st)
      | Inr (Some s) \<Rightarrow>
          if \<not> truthy amt \<or> \<not> truthy tenure' then
            (Error 400 ''Amount and tenure are required'', st)
          else
            let interest' = div100 (num_mul (num_mul (ToNumber amt) (ToNumber (s_interestRate s)))
                                      (ToNumber tenure'));
                totalAmount' = num_add (ToNumber amt) interest'
            in (Json 200 \<lparr> totalAmount = totalAmount', interest = interest',
                           loanAmount = amt, tenure = tenure' \<rparr>, st))"

text \<open>
  \<^verbatim>\<open>POST /service/:type/remittance\<close> (lines 155 to 169), the specification's
  \<^verbatim>\<open>requestRemittance\<close>. The path parameter is an argument that the handler never reads.
\<close>

definition remittance ::
  "store \<Rightarrow> string \<Rightarrow> rat option \<Rightarrow> rat option \<Rightarrow> remittance_message response \<times> store" where
  "remittance st ty amt mobile =
     (if \<not> truthy amt \<or> \<not> truthy mobile then
        (Error 400 ''Amount and mobile number are required'', st)
      else
        case Request_findOne st mobile of
          Inl e \<Rightarrow> (Rejected, st)
        | Inr None \<Rightarrow> (Error 404 ''No loan enquiry found for this mobile number'', st)
        | Inr (Some userRequest) \<Rightarrow> (Json 200 (Remittance_approved amt), st))"

text \<open>
  \<^verbatim>\<open>PUT /updaterequest\<close> (lines 172 to 187), the specification's \<^verbatim>\<open>updateEnquiry\<close>.
  The body is read through the paths of the request schema: it is both the update and, by
  its \<^verbatim>\<open>mobile\<close>, the filter.
\<close>

definition updaterequest :: "store \<Rightarrow> request \<Rightarrow> (string \<times> request) response \<times> store" where
  "updaterequest st body =
     (case Request_findOneAndUpdate st (r_mobile body) body of
        Inl e \<Rightarrow> (Error 400 ''Failed to update request'', st)
      | Inr (Some updatedRequest, st') \<Rightarrow>
          (Json 200 (''Request updated successfully'', updatedRequest), st')
      | Inr (None, st') \<Rightarrow> (Error 404 ''Request not found'', st'))"

text \<open>
  \<^verbatim>\<open>PUT /updatepassword\<close> (lines 190 to 205), the specification's \<^verbatim>\<open>updatePassword\<close>,
  for a body that carries a \<^verbatim>\<open>password\<close> string.
\<close>

definition updatepassword :: "store \<Rightarrow> rat option \<Rightarrow> string \<Rightarrow> string response \<times> store" where
  "updatepassword st mobile password =
     (case Member_findOneAndUpdate st mobile password of
        Inl e \<Rightarrow> (Error 400 ''Failed to update password'', st)
      | Inr (Some updatedMember, st') \<Rightarrow> (Json 200 ''Password updated successfully'', st')
      | Inr (None, st') \<Rightarrow> (Error 404 ''Member not found'', st'))"

text \<open>\<^verbatim>\<open>DELETE /deleterequest\<close> (lines 208 to 219), the specification's \<^verbatim>\<open>deleteEnquiry\<close>.\<close>

definition deleterequest :: "store \<Rightarrow> rat option \<Rightarrow> string response \<times> store" where
  "deleterequest st mobile =
     (case Request_findOneAndDelete st mobile of
        Inl e \<Rightarrow> (Error 400 ''Failed to delete request'', st)
      | Inr (Some deletedRequest, st') \<Rightarrow> (Json 200 ''Request deleted successfully'', st')
      | Inr (None, st') \<Rightarrow> (Error 404 ''Request not found'', st'))"

text \<open>\<^verbatim>\<open>DELETE /cancelmember\<close> (lines 222 to 233), the specification's \<^verbatim>\<open>cancelMembership\<close>.\<close>

definition cancelmember :: "store \<Rightarrow> rat option \<Rightarrow> string response \<times> store" where
  "cancelmember st mobile =
     (case Member_findOneAndDelete st mobile of
        Inl e \<Rightarrow> (Error 400 ''Failed to cancel membership'', st)
      | Inr (Some deletedMember, st') \<Rightarrow> (Json 200 ''Membership cancelled successfully'', st')
      | Inr (None, st') \<Rightarrow> (Error 404 ''Member not found'', st'))"

section \<open>Sample data\<close>

definition personal :: service where
  "personal = \<lparr> s_type = Some ''personal'', s_description = Some ''Personal loan'',
                s_interestRate = Some 10, s_maxAmount = Some 500000, s_tenure = Some 60,
                s_imgUrl = Some ''personal.png'' \<rparr>"

definition catalog_only :: store where
  "catalog_only = \<lparr> connected = True, services = [personal], requests = [], members = [] \<rparr>"

definition enquiry_a :: request where
  "enquiry_a = \<lparr> r_mobile = Some 9876543210, r_email = Some ''asha@example.com'',
                 r_amt = Some 50000, r_type = Some ''personal'', r_msg = Some ''urgent'',
                 r_code = None \<rparr>"

definition enquiry_b :: request where
  "enquiry_b = \<lparr> r_mobile = Some 9123456780, r_email = Some ''ravi@example.com'',
                 r_amt = Some 20000, r_type = Some ''personal'', r_msg = None,
                 r_code = Some ''R7'' \<rparr>"

definition enquiry_c :: request where
  "enquiry_c = \<lparr> r_mobile = Some 9876543210, r_email = Some ''asha.k@example.com'',
                 r_amt = Some 75000, r_type = Some ''personal'', r_msg = None,
                 r_code = None \<rparr>"

definition member_a :: member where
  "member_a = \<lparr> m_mobile = Some 9876543210, m_email = Some ''asha@example.com'',
                m_occupation = Some ''engineer'', m_createpassword = Some ''old-secret'' \<rparr>"

definition member_b :: member where
  "member_b = \<lparr> m_mobile = Some 9876543210, m_email = Some ''asha.k@example.com'',
                m_occupation = Some ''teacher'', m_createpassword = Some ''other'' \<rparr>"

definition office :: store where
  "office = \<lparr> connected = True, services = [personal],
               requests = [enquiry_b, enquiry_a, enquiry_c], members = [member_a, member_b] \<rparr>"

definition flat :: service where
  "flat = \<lparr> s_type = Some ''flat'', s_description = Some ''Flat rate loan'',
            s_interestRate = Some 1, s_maxAmount = Some 1000, s_tenure = Some 24,
            s_imgUrl = None \<rparr>"

definition flat_catalog :: store where
  "flat_catalog = \<lparr> connected = True, services = [flat], requests = [], members = [] \<rparr>"

definition amount_only :: request where
  "amount_only = \<lparr> r_mobile = Some 9123456780, r_email = None, r_amt = Some 30000,
                   r_type = None, r_msg = None, r_code = None \<rparr>"

definition new_amount :: request where
  "new_amount = \<lparr> r_mobile = Some 9876543210, r_email = None, r_amt = Some 60000,
                  r_type = None, r_msg = None, r_code = None \<rparr>"

section \<open>The first match of a filter\<close>

lemma update_first_no_match: "find P xs = None \<Longrightarrow> update_first P f xs = xs"
  by (induction xs) (auto split: if_splits)

lemma delete_first_no_match: "find P xs = None \<Longrightarrow> delete_first P xs = xs"
  by (induction xs) (auto split: if_splits)

lemma first_match_split:
  "find P xs = Some x \<Longrightarrow>
     \<exists>ys zs. xs = ys @ x # zs \<and> (\<forall>y \<in> set ys. \<not> P y) \<and> P x
       \<and> update_first P f xs = ys @ f x # zs \<and> delete_first P xs = ys @ zs"
proof (induction xs)
  case Nil
  then show ?case by simp
next
  case (Cons a xs)
  show ?case
  proof (cases "P a")
    case True
    with Cons.prems have "a = x" by simp
    with True show ?thesis by (intro exI [of _ "[]"] exI [of _ xs]) simp
  next
    case False
    with Cons.prems have "find P xs = Some x" by simp
    from Cons.IH [OF this] obtain ys zs where
      "xs = ys @ x # zs" "\<forall>y \<in> set ys. \<not> P y" "P x"
      "update_first P f xs = ys @ f x # zs" "delete_first P xs = ys @ zs"
      by blast
    with False show ?thesis
      by (intro exI [of _ "a # ys"] exI [of _ zs]) simp
  qed
qed

lemma filter_delete_first: "filter P (delete_first P xs) = tl (filter P xs)"
  by (induction xs) auto

lemma find_filter_Nil: "find P xs = None \<longleftrightarrow> filter P xs = []"
  by (induction xs) auto

lemma find_None_set: "find P xs = None \<longleftrightarrow> (\<forall>x \<in> set xs. \<not> P x)"
  by (induction xs) auto

lemma delete_twice_single_match:
  assumes "length (filter P xs) = 1"
  shows "find P xs \<noteq> None \<and> find P (delete_first P xs) = None"
proof -
  from assms have "filter P xs \<noteq> []" by auto
  then have 1: "find P xs \<noteq> None" by (simp add: find_filter_Nil)
  from assms have "tl (filter P xs) = []" by (cases "filter P xs") simp_all
  then have "find P (delete_first P xs) = None"
    by (simp add: find_filter_Nil filter_delete_first)
  with 1 show ?thesis by simp
qed

lemma map_update_first:
  "(\<And>x. P x \<Longrightarrow> g (f x) = g x) \<Longrightarrow> map g (update_first P f xs) = map g xs"
  by (induction xs) auto

lemma override_same: "override v v = v"
  by (cases v) simp_all

section \<open>What each handler answers\<close>

lemma updaterequest_missing:
  "connected st \<Longrightarrow> find (\<lambda>r. r_mobile r = r_mobile body) (requests st) = None \<Longrightarrow>
     updaterequest st body = (Error 404 ''Request not found'', st)"
  by (simp add: updaterequest_def Request_findOneAndUpdate_def update_first_no_match)

lemma updaterequest_found:
  "connected st \<Longrightarrow> find (\<lambda>r. r_mobile r = r_mobile body) (requests st) = Some d \<Longrightarrow>
     updaterequest st body =
       (Json 200 (''Request updated successfully'', set_request body d),
        st\<lparr>requests := update_first (\<lambda>r. r_mobile r = r_mobile body) (set_request body) (requests st)\<rparr>)"
  by (simp add: updaterequest_def Request_findOneAndUpdate_def)

lemma updatepassword_missing:
  "connected st \<Longrightarrow> find (\<lambda>m. m_mobile m = mobile) (members st) = None \<Longrightarrow>
     updatepassword st mobile p = (Error 404 ''Member not found'', st)"
  by (simp add: updatepassword_def Member_findOneAndUpdate_def update_first_no_match)

lemma updatepassword_found:
  "connected st \<Longrightarrow> find (\<lambda>m. m_mobile m = mobile) (members st) = Some d \<Longrightarrow>
     updatepassword st mobile p =
       (Json 200 ''Password updated successfully'',
        st\<lparr>members := update_first (\<lambda>m. m_mobile m = mobile)
                         (\<lambda>m. m\<lparr>m_createpassword := Some p\<rparr>) (members st)\<rparr>)"
  by (simp add: updatepassword_def Member_findOneAndUpdate_def)

lemma deleterequest_missing:
  "connected st \<Longrightarrow> find (\<lambda>r. r_mobile r = mobile) (requests st) = None \<Longrightarrow>
     deleterequest st mobile = (Error 404 ''Request not found'', st)"
  by (simp add: deleterequest_def Request_findOneAndDelete_def delete_first_no_match)

lemma deleterequest_found:
  "connected st \<Longrightarrow> find (\<lambda>r. r_mobile r = mobile) (requests st) = Some d \<Longrightarrow>
     deleterequest st mobile =
       (Json 200 ''Request deleted successfully'',
        st\<lparr>requests := delete_first (\<lambda>r. r_mobile r = mobile) (requests st)\<rparr>)"
  by (simp add: deleterequest_def Request_findOneAndDelete_def)

lemma cancelmember_missing:
  "connected st \<Longrightarrow> find (\<lambda>m. m_mobile m = mobile) (members st) = None \<Longrightarrow>
     cancelmember st mobile = (Error 404 ''Member not found'', st)"
  by (simp add: cancelmember_def Member_findOneAndDelete_def delete_first_no_match)

lemma cancelmember_found:
  "connected st \<Longrightarrow> find (\<lambda>m. m_mobile m = mobile) (members st) = Some d \<Longrightarrow>
     cancelmember st mobile =
       (Json 200 ''Membership cancelled successfully'',
        st\<lparr>members := delete_first (\<lambda>m. m_mobile m = mobile) (members st)\<rparr>)"
  by (simp add: cancelmember_def Member_findOneAndDelete_def)

lemma calculate_computed:
  "connected st \<Longrightarrow> find (\<lambda>s. s_type s = Some ty) (services st) = Some p \<Longrightarrow>
     a \<noteq> 0 \<Longrightarrow> t \<noteq> 0 \<Longrightarrow>
     calculate st ty (Some a) (Some t) =
       (Json 200
          \<lparr> totalAmount =
              num_add (Fin a)
                (div100 (num_mul (num_mul (Fin a) (ToNumber (s_interestRate p))) (Fin t))),
            interest = div100 (num_mul (num_mul (Fin a) (ToNumber (s_interestRate p))) (Fin t)),
            loanAmount = Some a, tenure = Some t \<rparr>, st)"
  by (simp add: calculate_def Service_findOne_def Let_def)

lemma exact_when_representable:
  assumes "is_double (a * r)" and "is_double (a * r * t)" and "is_double (a * r * t / 100)"
    and "is_double (a + a * r * t / 100)"
  shows "div100 (num_mul (num_mul (Fin a) (Fin r)) (Fin t)) = Fin (a * r * t / 100)"
    and "num_add (Fin a) (Fin (a * r * t / 100)) = Fin (a + a * r * t / 100)"
  using assms by (simp_all add: is_double_def)

lemma remittance_response:
  "fst (remittance st ty amt mobile) =
     (if \<not> truthy amt \<or> \<not> truthy mobile then Error 400 ''Amount and mobile number are required''
      else if \<not> connected st then Rejected
      else if \<forall>r \<in> set (requests st). r_mobile r \<noteq> mobile
        then Error 404 ''No loan enquiry found for this mobile number''
      else Json 200 (Remittance_approved amt))"
proof (cases "find (\<lambda>r. r_mobile r = mobile) (requests st)")
  case None
  then have "\<forall>r \<in> set (requests st). r_mobile r \<noteq> mobile"
    by (simp add: find_None_set)
  with None show ?thesis
    by (simp add: remittance_def Request_findOne_def)
next
  case (Some d)
  then have "\<exists>r \<in> set (requests st). r_mobile r = mobile"
    using find_None_set [of "\<lambda>r. r_mobile r = mobile" "requests st"] by simp
  with Some show ?thesis
    by (auto simp add: remittance_def Request_findOne_def)
qed

section \<open>Interest calculation\<close>

text \<open>The doubles that the examples below pass through.\<close>

lemma doubles_of_the_example:
  "is_double 10000" "is_double 120000" "is_double 1200" "is_double 2200"
  by code_simp+

lemma flat_rate_arithmetic:
  "num_mul (Fin 1) (Fin 1) = Fin 1"
  "num_mul (Fin 1) (Fin 14) = Fin 14"
  "div100 (Fin 14) = Fin (1261007895663739 / 9007199254740992)"
  "num_add (Fin 1) (Fin (1261007895663739 / 9007199254740992)) =
     Fin (2567051787601183 / 2251799813685248)"
  by code_simp+

lemma negative_amount_arithmetic:
  "num_mul (Fin (- 1000)) (Fin 10) = Fin (- 10000)"
  "num_mul (Fin (- 10000)) (Fin 12) = Fin (- 120000)"
  "div100 (Fin (- 120000)) = Fin (- 1200)"
  "num_add (Fin (- 1000)) (Fin (- 1200)) = Fin (- 2200)"
  by code_simp+

text \<open>
  C1, as amended. When the store answers and the product that the lookup by type returns has
  interest rate \<open>r\<close>, a request with a positive amount \<open>a\<close> and a positive tenure \<open>t\<close> gets
  status 200 with the interest \<open>((a * r) * t) / 100\<close> and the total amount \<open>a\<close> plus that
  interest as JavaScript computes them, every operation rounded to the nearest double, with
  loan amount \<open>a\<close> and tenure \<open>t\<close>. When the exact values of \<open>a * r\<close>, \<open>a * r * t\<close>,
  \<open>a * r * t / 100\<close> and \<open>a + a * r * t / 100\<close> are doubles, the interest and the total are
  exactly \<open>a * r * t / 100\<close> and \<open>a + a * r * t / 100\<close>.
\<close>

theorem calculate_simple_interest:
  assumes "connected st"
    and "find (\<lambda>s. s_type s = Some ty) (services st) = Some p"
    and "s_interestRate p = Some r"
    and "0 < a" and "0 < t"
  shows "fst (calculate st ty (Some a) (Some t)) =
           Json 200 \<lparr> totalAmount =
                        num_add (Fin a) (div100 (num_mul (num_mul (Fin a) (Fin r)) (Fin t))),
                      interest = div100 (num_mul (num_mul (Fin a) (Fin r)) (Fin t)),
                      loanAmount = Some a, tenure = Some t \<rparr>
       \<and> (is_double (a * r) \<and> is_double (a * r * t) \<and> is_double (a * r * t / 100)
            \<and> is_double (a + a * r * t / 100) \<longrightarrow>
          fst (calculate st ty (Some a) (Some t)) =
            Json 200 \<lparr> totalAmount = Fin (a + a * r * t / 100),
                       interest = Fin (a * r * t / 100),
                       loanAmount = Some a, tenure = Some t \<rparr>)"
proof -
  from assms have computed: "fst (calculate st ty (Some a) (Some t)) =
      Json 200 \<lparr> totalAmount =
                   num_add (Fin a) (div100 (num_mul (num_mul (Fin a) (Fin r)) (Fin t))),
                 interest = div100 (num_mul (num_mul (Fin a) (Fin r)) (Fin t)),
                 loanAmount = Some a, tenure = Some t \<rparr>"
    by (simp add: calculate_computed)
  show ?thesis
  proof (intro conjI impI)
    show "fst (calculate st ty (Some a) (Some t)) =
      Json 200 \<lparr> totalAmount =
                   num_add (Fin a) (div100 (num_mul (num_mul (Fin a) (Fin r)) (Fin t))),
                 interest = div100 (num_mul (num_mul (Fin a) (Fin r)) (Fin t)),
                 loanAmount = Some a, tenure = Some t \<rparr>"
      by (fact computed)
  next
    assume "is_double (a * r) \<and> is_double (a * r * t) \<and> is_double (a * r * t / 100)
        \<and> is_double (a + a * r * t / 100)"
    then have d: "is_double (a * r)" "is_double (a * r * t)" "is_double (a * r * t / 100)"
      "is_double (a + a * r * t / 100)"
      by blast+
    note exact = exact_when_representable [OF d]
    from computed show "fst (calculate st ty (Some a) (Some t)) =
        Json 200 \<lparr> totalAmount = Fin (a + a * r * t / 100),
                   interest = Fin (a * r * t / 100),
                   loanAmount = Some a, tenure = Some t \<rparr>"
      by (simp only: exact)
  qed
qed

text \<open>
  The specification's example: 1000 over 12 at a rate of 10 passes through 10000, 120000,
  1200 and 2200, which are doubles, and gives an interest of 1200 and a total of 2200.
\<close>

theorem calculate_simple_interest_witness:
  "connected catalog_only
   \<and> find (\<lambda>s. s_type s = Some ''personal'') (services catalog_only) = Some personal
   \<and> s_interestRate personal = Some 10
   \<and> (0::rat) < 1000 \<and> (0::rat) < 12
   \<and> is_double (1000 * 10) \<and> is_double (1000 * 10 * 12) \<and> is_double (1000 * 10 * 12 / 100)
   \<and> is_double (1000 + 1000 * 10 * 12 / 100)
   \<and> fst (calculate catalog_only ''personal'' (Some 1000) (Some 12)) =
        Json 200 \<lparr> totalAmount = Fin 2200, interest = Fin 1200,
                   loanAmount = Some 1000, tenure = Some 12 \<rparr>"
proof -
  have c: "connected catalog_only" by (simp add: catalog_only_def)
  have f: "find (\<lambda>s. s_type s = Some ''personal'') (services catalog_only) = Some personal"
    by (simp add: catalog_only_def personal_def)
  have r: "s_interestRate personal = Some 10" by (simp add: personal_def)
  have a: "(0::rat) < 1000" and t: "(0::rat) < 12" by simp_all
  have d: "is_double (1000 * 10)" "is_double (1000 * 10 * 12)"
    "is_double (1000 * 10 * 12 / 100)" "is_double (1000 + 1000 * 10 * 12 / 100)"
    by (simp_all add: doubles_of_the_example)
  from calculate_simple_interest [OF c f r a t] d
  have "fst (calculate catalog_only ''personal'' (Some 1000) (Some 12)) =
      Json 200 \<lparr> totalAmount = Fin (1000 + 1000 * 10 * 12 / 100),
                 interest = Fin (1000 * 10 * 12 / 100),
                 loanAmount = Some 1000, tenure = Some 12 \<rparr>"
    by blast
  then have "fst (calculate catalog_only ''personal'' (Some 1000) (Some 12)) =
      Json 200 \<lparr> totalAmount = Fin 2200, interest = Fin 1200,
                 loanAmount = Some 1000, tenure = Some 12 \<rparr>"
    by simp
  with c f r a t d show ?thesis by blast
qed

text \<open>
  An amount of 1 over 14 at a rate of 1: the quotient 14 / 100 is not a double, the interest
  is the double nearest to it and the total is the double that JavaScript prints as
  \<^verbatim>\<open>1.1400000000000001\<close>. Neither is the exact value.
\<close>

theorem calculate_rounds_counterexample:
  "find (\<lambda>s. s_type s = Some ''flat'') (services flat_catalog) = Some flat
   \<and> s_interestRate flat = Some 1 \<and> (0::rat) < 1 \<and> (0::rat) < 14
   \<and> fst (calculate flat_catalog ''flat'' (Some 1) (Some 14)) =
        Json 200 \<lparr> totalAmount = Fin (2567051787601183 / 2251799813685248),
                   interest = Fin (1261007895663739 / 9007199254740992),
                   loanAmount = Some 1, tenure = Some 14 \<rparr>
   \<and> (1261007895663739 / 9007199254740992 :: rat) \<noteq> 1 * 1 * 14 / 100
   \<and> (2567051787601183 / 2251799813685248 :: rat) \<noteq> 1 + 1 * 1 * 14 / 100"
proof -
  have c: "connected flat_catalog" by (simp add: flat_catalog_def)
  have f: "find (\<lambda>s. s_type s = Some ''flat'') (services flat_catalog) = Some flat"
    by (simp add: flat_catalog_def flat_def)
  have r: "s_interestRate flat = Some 1" by (simp add: flat_def)
  have "calculate flat_catalog ''flat'' (Some 1) (Some 14) =
      (Json 200
         \<lparr> totalAmount =
             num_add (Fin 1)
               (div100 (num_mul (num_mul (Fin 1) (ToNumber (s_interestRate flat))) (Fin 14))),
           interest = div100 (num_mul (num_mul (Fin 1) (ToNumber (s_interestRate flat))) (Fin 14)),
           loanAmount = Some 1, tenure = Some 14 \<rparr>, flat_catalog)"
    using c f by (intro calculate_computed) simp_all
  then have "fst (calculate flat_catalog ''flat'' (Some 1) (Some 14)) =
        Json 200 \<lparr> totalAmount = Fin (2567051787601183 / 2251799813685248),
                   interest = Fin (1261007895663739 / 9007199254740992),
                   loanAmount = Some 1, tenure = Some 14 \<rparr>"
    by (simp only: r ToNumber.simps flat_rate_arithmetic fst_conv)
  with f r show ?thesis by simp
qed

text \<open>
  C2, as amended. When the store answers and the type matches a stored product, the handler
  answers 400 exactly when the amount or the tenure is missing or zero. The test is
  \<^verbatim>\<open>!amt || !tenure\<close>: every other amount and tenure, the negative ones included, is
  answered 200 with the interest and the total computed from it.
\<close>

theorem calculate_rejects_missing_or_zero:
  assumes "connected st"
    and "find (\<lambda>s. s_type s = Some ty) (services st) = Some p"
  shows "(fst (calculate st ty amt tenure') = Error 400 ''Amount and tenure are required''
          \<longleftrightarrow> amt = None \<or> amt = Some 0 \<or> tenure' = None \<or> tenure' = Some 0)
       \<and> (\<forall>a t. amt = Some a \<and> a \<noteq> 0 \<and> tenure' = Some t \<and> t \<noteq> 0 \<longrightarrow>
            fst (calculate st ty amt tenure') =
              Json 200
                \<lparr> totalAmount =
                    num_add (Fin a)
                      (div100 (num_mul (num_mul (Fin a) (ToNumber (s_interestRate p))) (Fin t))),
                  interest =
                    div100 (num_mul (num_mul (Fin a) (ToNumber (s_interestRate p))) (Fin t)),
                  loanAmount = Some a, tenure = Some t \<rparr>)"
proof (intro conjI allI impI)
  show "fst (calculate st ty amt tenure') = Error 400 ''Amount and tenure are required''
          \<longleftrightarrow> amt = None \<or> amt = Some 0 \<or> tenure' = None \<or> tenure' = Some 0"
  proof (cases amt)
    case None
    with assms show ?thesis by (simp add: calculate_def Service_findOne_def)
  next
    case (Some a)
    note amt = this
    show ?thesis
    proof (cases tenure')
      case None
      with assms show ?thesis by (simp add: calculate_def Service_findOne_def)
    next
      case (Some t)
      with amt assms show ?thesis
        by (simp add: calculate_def Service_findOne_def Let_def)
    qed
  qed
next
  fix a t
  assume "amt = Some a \<and> a \<noteq> 0 \<and> tenure' = Some t \<and> t \<noteq> 0"
  with assms show "fst (calculate st ty amt tenure') =
      Json 200
        \<lparr> totalAmount =
            num_add (Fin a)
              (div100 (num_mul (num_mul (Fin a) (ToNumber (s_interestRate p))) (Fin t))),
          interest = div100 (num_mul (num_mul (Fin a) (ToNumber (s_interestRate p))) (Fin t)),
          loanAmount = Some a, tenure = Some t \<rparr>"
    by (simp add: calculate_computed)
qed

text \<open>
  A zero amount, a missing tenure, and a negative amount against the sample catalogue.
\<close>

theorem calculate_rejects_missing_or_zero_witness:
  "connected catalog_only
   \<and> find (\<lambda>s. s_type s = Some ''personal'') (services catalog_only) = Some personal
   \<and> fst (calculate catalog_only ''personal'' (Some 0) (Some 12)) =
        Error 400 ''Amount and tenure are required''
   \<and> fst (calculate catalog_only ''personal'' (Some 1000) None) =
        Error 400 ''Amount and tenure are required''
   \<and> (- 1000 :: rat) \<noteq> 0 \<and> (12 :: rat) \<noteq> 0
   \<and> fst (calculate catalog_only ''personal'' (Some (- 1000)) (Some 12)) =
        Json 200 \<lparr> totalAmount = Fin (- 2200), interest = Fin (- 1200),
                   loanAmount = Some (- 1000), tenure = Some 12 \<rparr>"
proof -
  have c: "connected catalog_only" by (simp add: catalog_only_def)
  have f: "find (\<lambda>s. s_type s = Some ''personal'') (services catalog_only) = Some personal"
    by (simp add: catalog_only_def personal_def)
  have r: "s_interestRate personal = Some 10" by (simp add: personal_def)
  from calculate_rejects_missing_or_zero [OF c f, of "Some 0" "Some 12"]
  have 1: "fst (calculate catalog_only ''personal'' (Some 0) (Some 12)) =
        Error 400 ''Amount and tenure are required''"
    by simp
  from calculate_rejects_missing_or_zero [OF c f, of "Some 1000" None]
  have 2: "fst (calculate catalog_only ''personal'' (Some 1000) None) =
        Error 400 ''Amount and tenure are required''"
    by simp
  from calculate_rejects_missing_or_zero [OF c f, of "Some (- 1000)" "Some 12"]
  have "fst (calculate catalog_only ''personal'' (Some (- 1000)) (Some 12)) =
      Json 200
        \<lparr> totalAmount =
            num_add (Fin (- 1000))
              (div100 (num_mul (num_mul (Fin (- 1000)) (ToNumber (s_interestRate personal)))
                         (Fin 12))),
          interest =
            div100 (num_mul (num_mul (Fin (- 1000)) (ToNumber (s_interestRate personal)))
                      (Fin 12)),
          loanAmount = Some (- 1000), tenure = Some 12 \<rparr>"
    by simp
  then have 3: "fst (calculate catalog_only ''personal'' (Some (- 1000)) (Some 12)) =
        Json 200 \<lparr> totalAmount = Fin (- 2200), interest = Fin (- 1200),
                   loanAmount = Some (- 1000), tenure = Some 12 \<rparr>"
    by (simp only: r ToNumber.simps negative_amount_arithmetic)
  from c f 1 2 3 show ?thesis by simp
qed

text \<open>
  A negative amount is truthy: the handler computes with it and answers 200, with a
  negative interest.
\<close>

theorem calculate_negative_amount_counterexample:
  "find (\<lambda>s. s_type s = Some ''personal'') (services catalog_only) = Some personal
   \<and> (- 1000 :: rat) \<le> 0
   \<and> fst (calculate catalog_only ''personal'' (Some (- 1000)) (Some 12)) =
        Json 200 \<lparr> totalAmount = Fin (- 2200), interest = Fin (- 1200),
                   loanAmount = Some (- 1000), tenure = Some 12 \<rparr>"
proof -
  have c: "connected catalog_only" by (simp add: catalog_only_def)
  have f: "find (\<lambda>s. s_type s = Some ''personal'') (services catalog_only) = Some personal"
    by (simp add: catalog_only_def personal_def)
  have r: "s_interestRate personal = Some 10" by (simp add: personal_def)
  have "calculate catalog_only ''personal'' (Some (- 1000)) (Some 12) =
      (Json 200
         \<lparr> totalAmount =
             num_add (Fin (- 1000))
               (div100 (num_mul (num_mul (Fin (- 1000)) (ToNumber (s_interestRate personal)))
                          (Fin 12))),
           interest =
             div100 (num_mul (num_mul (Fin (- 1000)) (ToNumber (s_interestRate personal)))
                       (Fin 12)),
           loanAmount = Some (- 1000), tenure = Some 12 \<rparr>, catalog_only)"
    using c f by (intro calculate_computed) simp_all
  then have "fst (calculate catalog_only ''personal'' (Some (- 1000)) (Some 12)) =
        Json 200 \<lparr> totalAmount = Fin (- 2200), interest = Fin (- 1200),
                   loanAmount = Some (- 1000), tenure = Some 12 \<rparr>"
    by (simp only: r ToNumber.simps negative_amount_arithmetic fst_conv)
  with f show ?thesis by simp
qed

section \<open>Remittance\<close>

text \<open>
  C4, as amended. When the store answers, a request whose amount and mobile are both truthy
  (present and not zero) succeeds exactly when some enquiry has that mobile, whatever the
  enquiry's stored amount (the schema has no approval path), and answers 404 when none has;
  a request whose amount or mobile is missing or zero answers 400, before any lookup.
\<close>

theorem remittance_gated_on_enquiry:
  assumes "connected st"
  shows "(truthy amt \<and> truthy mobile \<longrightarrow>
            (fst (remittance st ty amt mobile) = Json 200 (Remittance_approved amt)
               \<longleftrightarrow> (\<exists>r \<in> set (requests st). r_mobile r = mobile))
          \<and> ((\<forall>r \<in> set (requests st). r_mobile r \<noteq> mobile) \<longrightarrow>
               fst (remittance st ty amt mobile) =
                 Error 404 ''No loan enquiry found for this mobile number''))
       \<and> (\<not> truthy amt \<or> \<not> truthy mobile \<longrightarrow>
            fst (remittance st ty amt mobile) =
              Error 400 ''Amount and mobile number are required'')"
  using assms by (auto simp add: remittance_response)

text \<open>
  An enquiry for 20000 lets a remittance of 20001 through.
\<close>

theorem remittance_gated_on_enquiry_witness:
  "connected office \<and> truthy (Some 20001) \<and> truthy (Some 9123456780)
   \<and> (\<exists>r \<in> set (requests office). r_mobile r = Some 9123456780 \<and> r_amt r \<noteq> Some 20001)
   \<and> fst (remittance office ''personal'' (Some 20001) (Some 9123456780)) =
        Json 200 (Remittance_approved (Some 20001))"
proof -
  have c: "connected office" by (simp add: office_def)
  have e: "\<exists>r \<in> set (requests office). r_mobile r = Some 9123456780 \<and> r_amt r \<noteq> Some 20001"
    by (simp add: office_def enquiry_b_def)
  then have "\<exists>r \<in> set (requests office). r_mobile r = Some 9123456780" by blast
  with remittance_gated_on_enquiry [OF c, of "Some 20001" "Some 9123456780" "''personal''"]
  have "fst (remittance office ''personal'' (Some 20001) (Some 9123456780)) =
        Json 200 (Remittance_approved (Some 20001))"
    by simp
  with c e show ?thesis by simp
qed

text \<open>
  An amount of zero is present in the body and yet falsy: the enquiry exists and the
  answer is 400.
\<close>

theorem remittance_zero_amount_counterexample:
  "find (\<lambda>r. r_mobile r = Some 9123456780) (requests office) = Some enquiry_b
   \<and> fst (remittance office ''personal'' (Some 0) (Some 9123456780)) =
        Error 400 ''Amount and mobile number are required''"
  by (simp add: remittance_def office_def enquiry_b_def)

text \<open>
  C5. \<^verbatim>\<open>calculate\<close> and \<^verbatim>\<open>remittance\<close> return the store they were given, on
  every path: the only store operation either of them calls is \<^verbatim>\<open>findOne\<close>.
\<close>

theorem calculate_remittance_read_only:
  "snd (calculate st ty amt tenure') = st \<and> snd (remittance st ty amt mobile) = st"
  by (simp add: calculate_def remittance_def Let_def split: sum.split option.split)

text \<open>
  A success and a failure of each handler.
\<close>

theorem calculate_remittance_read_only_witness:
  "snd (calculate office ''personal'' (Some 1000) (Some 12)) = office
   \<and> snd (remittance office ''personal'' (Some 1000) (Some 9123456780)) = office
   \<and> snd (calculate office ''gold'' (Some 1000) None) = office
   \<and> snd (remittance office ''gold'' None (Some 5)) = office"
  using calculate_remittance_read_only [of office "''personal''" "Some 1000" "Some 12" "Some 9123456780"]
    calculate_remittance_read_only [of office "''gold''" "Some 1000" None "Some 5"]
    calculate_remittance_read_only [of office "''gold''" None None "Some 5"]
  by simp

text \<open>
  C9. The response and the store after \<^verbatim>\<open>remittance\<close> are the same for any two path
  parameters. Moreover the response is the same in any two stores that are both reachable
  or both not, and agree on whether an enquiry with the body's mobile exists.
\<close>

theorem remittance_ignores_type:
  "remittance st ty1 amt mobile = remittance st ty2 amt mobile
   \<and> (connected st1 = connected st2
        \<and> ((\<exists>r \<in> set (requests st1). r_mobile r = mobile)
             \<longleftrightarrow> (\<exists>r \<in> set (requests st2). r_mobile r = mobile))
      \<longrightarrow> fst (remittance st1 ty1 amt mobile) = fst (remittance st2 ty2 amt mobile))"
proof
  show "remittance st ty1 amt mobile = remittance st ty2 amt mobile"
    by (simp add: remittance_def)
  show "connected st1 = connected st2
        \<and> ((\<exists>r \<in> set (requests st1). r_mobile r = mobile)
             \<longleftrightarrow> (\<exists>r \<in> set (requests st2). r_mobile r = mobile))
      \<longrightarrow> fst (remittance st1 ty1 amt mobile) = fst (remittance st2 ty2 amt mobile)"
    by (auto simp add: remittance_response)
qed

text \<open>
  Two stores with different enquiries, two different loan types, one answer.
\<close>

theorem remittance_ignores_type_witness:
  "connected office = connected (office\<lparr>requests := [enquiry_b]\<rparr>)
   \<and> (\<exists>r \<in> set (requests office). r_mobile r = Some 9123456780)
   \<and> (\<exists>r \<in> set (requests (office\<lparr>requests := [enquiry_b]\<rparr>)). r_mobile r = Some 9123456780)
   \<and> remittance office ''personal'' (Some 500) (Some 9123456780) =
       remittance office ''home'' (Some 500) (Some 9123456780)
   \<and> fst (remittance office ''personal'' (Some 500) (Some 9123456780)) =
       fst (remittance (office\<lparr>requests := [enquiry_b]\<rparr>) ''home'' (Some 500) (Some 9123456780))"
proof -
  have a: "connected office = connected (office\<lparr>requests := [enquiry_b]\<rparr>)" by simp
  have b: "\<exists>r \<in> set (requests office). r_mobile r = Some 9123456780"
    by (simp add: office_def enquiry_b_def)
  have c: "\<exists>r \<in> set (requests (office\<lparr>requests := [enquiry_b]\<rparr>)). r_mobile r = Some 9123456780"
    by (simp add: enquiry_b_def)
  note t = remittance_ignores_type [of office "''personal''" "Some 500" "Some 9123456780"
      "''home''" office "office\<lparr>requests := [enquiry_b]\<rparr>"]
  from t have d: "remittance office ''personal'' (Some 500) (Some 9123456780) =
      remittance office ''home'' (Some 500) (Some 9123456780)"
    by (rule conjunct1)
  from t a b c have e: "fst (remittance office ''personal'' (Some 500) (Some 9123456780)) =
      fst (remittance (office\<lparr>requests := [enquiry_b]\<rparr>) ''home'' (Some 500) (Some 9123456780))"
    by blast
  from a b c d e show ?thesis by blast
qed

section \<open>The catalogue\<close>

text \<open>
  C6. When the store answers: on an empty catalogue \<^verbatim>\<open>allservices\<close> answers 404;
  otherwise it answers one summary per stored product, in order, carrying the product's
  type, description and image reference. A summary (\<open>brief_service\<close>) has no other field,
  and the answer does not change when the interest rate, maximal amount and tenure of the
  stored products do. \<^verbatim>\<open>service_by_type\<close> answers 404 when no stored product has the given
  type.
\<close>

theorem catalog_views:
  assumes "connected st"
  shows "(services st = [] \<longrightarrow> allservices st = (Error 404 ''No loan services available'', st))
       \<and> (services st \<noteq> [] \<longrightarrow>
            (\<exists>bs. allservices st = (Json 200 bs, st) \<and> length bs = length (services st)
               \<and> (\<forall>i < length bs. b_type (bs ! i) = s_type (services st ! i)
                      \<and> b_description (bs ! i) = s_description (services st ! i)
                      \<and> b_imgUrl (bs ! i) = s_imgUrl (services st ! i))))
       \<and> fst (allservices (st\<lparr>services :=
                 map (\<lambda>s. s\<lparr>s_interestRate := rate s, s_maxAmount := cap s, s_tenure := dur s\<rparr>)
                   (services st)\<rparr>)) = fst (allservices st)
       \<and> ((\<forall>s \<in> set (services st). s_type s \<noteq> Some ty) \<longrightarrow>
            service_by_type st ty = (Error 404 ''Service not found'', st))"
proof (intro conjI impI)
  assume "services st = []"
  with assms show "allservices st = (Error 404 ''No loan services available'', st)"
    by (simp add: allservices_def Service_find_def)
next
  assume "services st \<noteq> []"
  with assms show "\<exists>bs. allservices st = (Json 200 bs, st) \<and> length bs = length (services st)
      \<and> (\<forall>i < length bs. b_type (bs ! i) = s_type (services st ! i)
             \<and> b_description (bs ! i) = s_description (services st ! i)
             \<and> b_imgUrl (bs ! i) = s_imgUrl (services st ! i))"
    by (simp add: allservices_def Service_find_def)
next
  from assms show "fst (allservices (st\<lparr>services :=
        map (\<lambda>s. s\<lparr>s_interestRate := rate s, s_maxAmount := cap s, s_tenure := dur s\<rparr>)
          (services st)\<rparr>)) = fst (allservices st)"
    by (simp add: allservices_def Service_find_def comp_def)
next
  assume "\<forall>s \<in> set (services st). s_type s \<noteq> Some ty"
  then have "find (\<lambda>s. s_type s = Some ty) (services st) = None"
    by (simp add: find_None_set)
  with assms show "service_by_type st ty = (Error 404 ''Service not found'', st)"
    by (simp add: service_by_type_def Service_findOne_def)
qed

text \<open>
  The sample catalogue, the empty catalogue, and a type that is not stored.
\<close>

theorem catalog_views_witness:
  "connected catalog_only \<and> services catalog_only \<noteq> []
   \<and> connected (catalog_only\<lparr>services := []\<rparr>) \<and> services (catalog_only\<lparr>services := []\<rparr>) = []
   \<and> s_type personal \<noteq> Some ''nonexistent''
   \<and> allservices (catalog_only\<lparr>services := []\<rparr>) =
       (Error 404 ''No loan services available'', catalog_only\<lparr>services := []\<rparr>)
   \<and> (\<exists>bs. allservices catalog_only = (Json 200 bs, catalog_only) \<and> length bs = 1
         \<and> b_type (bs ! 0) = Some ''personal'')
   \<and> service_by_type catalog_only ''nonexistent'' = (Error 404 ''Service not found'', catalog_only)"
proof -
  have c: "connected catalog_only" and n: "services catalog_only \<noteq> []"
    and c': "connected (catalog_only\<lparr>services := []\<rparr>)"
    and e: "services (catalog_only\<lparr>services := []\<rparr>) = []"
    and t: "s_type personal \<noteq> Some ''nonexistent''"
    and a: "\<forall>s \<in> set (services catalog_only). s_type s \<noteq> Some ''nonexistent''"
    and l: "length (services catalog_only) = 1" "s_type (services catalog_only ! 0) = Some ''personal''"
    by (simp_all add: catalog_only_def personal_def)
  from catalog_views [OF c', where ty = "''nonexistent''" and rate = "\<lambda>s. None"
      and cap = "\<lambda>s. None" and dur = "\<lambda>s. None"] e
  have 1: "allservices (catalog_only\<lparr>services := []\<rparr>) =
       (Error 404 ''No loan services available'', catalog_only\<lparr>services := []\<rparr>)"
    by blast
  from catalog_views [OF c, where ty = "''nonexistent''" and rate = "\<lambda>s. None"
      and cap = "\<lambda>s. None" and dur = "\<lambda>s. None"] n a
  obtain bs where 2: "allservices catalog_only = (Json 200 bs, catalog_only)"
      "length bs = length (services catalog_only)"
      "\<forall>i < length bs. b_type (bs ! i) = s_type (services catalog_only ! i)"
    and 3: "service_by_type catalog_only ''nonexistent'' = (Error 404 ''Service not found'', catalog_only)"
    by blast
  from 2 l have "allservices catalog_only = (Json 200 bs, catalog_only) \<and> length bs = 1
         \<and> b_type (bs ! 0) = Some ''personal''"
    by simp
  with c n c' e t 1 3 show ?thesis by blast
qed

section \<open>Updating and deleting by mobile\<close>

text \<open>
  C3, as amended. When the store answers, \<^verbatim>\<open>updaterequest\<close> answers 404 and leaves the
  store as it is when no enquiry has the body's mobile. Otherwise it overwrites, in the first
  enquiry with that mobile (no enquiry before it has the mobile), the fields that the body
  carries, keeps the fields that the body
  does not carry, and answers 200 with the enquiry as it is stored after the update.
\<close>

theorem updaterequest_patches_first_match:
  assumes "connected st"
  shows "(find (\<lambda>r. r_mobile r = r_mobile body) (requests st) = None \<longrightarrow>
            updaterequest st body = (Error 404 ''Request not found'', st))
       \<and> (\<forall>d. find (\<lambda>r. r_mobile r = r_mobile body) (requests st) = Some d \<longrightarrow>
            (\<exists>d' ys zs.
               fst (updaterequest st body) = Json 200 (''Request updated successfully'', d')
             \<and> r_mobile d' = override (r_mobile body) (r_mobile d)
             \<and> r_email d' = override (r_email body) (r_email d)
             \<and> r_amt d' = override (r_amt body) (r_amt d)
             \<and> r_type d' = override (r_type body) (r_type d)
             \<and> r_msg d' = override (r_msg body) (r_msg d)
             \<and> r_code d' = override (r_code body) (r_code d)
             \<and> requests st = ys @ d # zs
             \<and> (\<forall>y \<in> set ys. r_mobile y \<noteq> r_mobile body)
             \<and> snd (updaterequest st body) = st\<lparr>requests := ys @ d' # zs\<rparr>))"
proof (intro conjI allI impI)
  assume "find (\<lambda>r. r_mobile r = r_mobile body) (requests st) = None"
  with assms show "updaterequest st body = (Error 404 ''Request not found'', st)"
    by (rule updaterequest_missing)
next
  fix d
  assume found: "find (\<lambda>r. r_mobile r = r_mobile body) (requests st) = Some d"
  from first_match_split [OF found, of "set_request body"] obtain ys zs where
    split: "requests st = ys @ d # zs" "\<forall>y \<in> set ys. r_mobile y \<noteq> r_mobile body"
      "update_first (\<lambda>r. r_mobile r = r_mobile body) (set_request body) (requests st)
         = ys @ set_request body d # zs"
    by blast
  show "\<exists>d' ys zs.
          fst (updaterequest st body) = Json 200 (''Request updated successfully'', d')
        \<and> r_mobile d' = override (r_mobile body) (r_mobile d)
        \<and> r_email d' = override (r_email body) (r_email d)
        \<and> r_amt d' = override (r_amt body) (r_amt d)
        \<and> r_type d' = override (r_type body) (r_type d)
        \<and> r_msg d' = override (r_msg body) (r_msg d)
        \<and> r_code d' = override (r_code body) (r_code d)
        \<and> requests st = ys @ d # zs
        \<and> (\<forall>y \<in> set ys. r_mobile y \<noteq> r_mobile body)
        \<and> snd (updaterequest st body) = st\<lparr>requests := ys @ d' # zs\<rparr>"
    using split updaterequest_found [OF assms found]
    by (intro exI [of _ "set_request body d"] exI [of _ ys] exI [of _ zs])
       (simp add: set_request_def)
qed

text \<open>
  A body with a mobile and an amount only: the amount is replaced, the email stays.
\<close>

theorem updaterequest_patches_first_match_witness:
  "connected office
   \<and> find (\<lambda>r. r_mobile r = r_mobile amount_only) (requests office) = Some enquiry_b
   \<and> (\<exists>d'. fst (updaterequest office amount_only) = Json 200 (''Request updated successfully'', d')
         \<and> r_amt d' = Some 30000 \<and> r_email d' = Some ''ravi@example.com'')"
proof -
  have c: "connected office" by (simp add: office_def)
  have f: "find (\<lambda>r. r_mobile r = r_mobile amount_only) (requests office) = Some enquiry_b"
    by (simp add: office_def amount_only_def enquiry_b_def)
  from updaterequest_patches_first_match [OF c, of amount_only] f
  obtain d' where "fst (updaterequest office amount_only) =
      Json 200 (''Request updated successfully'', d')"
    "r_amt d' = override (r_amt amount_only) (r_amt enquiry_b)"
    "r_email d' = override (r_email amount_only) (r_email enquiry_b)"
    by blast
  then have "fst (updaterequest office amount_only) =
      Json 200 (''Request updated successfully'', d')
    \<and> r_amt d' = Some 30000 \<and> r_email d' = Some ''ravi@example.com''"
    by (simp add: amount_only_def enquiry_b_def)
  with c f show ?thesis by blast
qed

text \<open>
  The same update in full: the email, type and code of the stored enquiry, all absent from
  the body, survive it.
\<close>

theorem updaterequest_keeps_absent_fields_counterexample:
  "r_email amount_only = None
   \<and> fst (updaterequest office amount_only) =
        Json 200 (''Request updated successfully'',
          \<lparr> r_mobile = Some 9123456780, r_email = Some ''ravi@example.com'', r_amt = Some 30000,
            r_type = Some ''personal'', r_msg = None, r_code = Some ''R7'' \<rparr>)
   \<and> requests (snd (updaterequest office amount_only)) =
        [\<lparr> r_mobile = Some 9123456780, r_email = Some ''ravi@example.com'', r_amt = Some 30000,
            r_type = Some ''personal'', r_msg = None, r_code = Some ''R7'' \<rparr>,
         enquiry_a, enquiry_c]"
  by (simp add: updaterequest_def Request_findOneAndUpdate_def set_request_def office_def
      amount_only_def enquiry_a_def enquiry_b_def enquiry_c_def)

text \<open>
  C7. When the store answers, each of \<^verbatim>\<open>updaterequest\<close>, \<^verbatim>\<open>deleterequest\<close>,
  \<^verbatim>\<open>updatepassword\<close> and \<^verbatim>\<open>cancelmember\<close> answers 404 and leaves the store as it is
  when no document of its collection has the mobile \<open>m\<close>. Otherwise the collection splits
  into the documents before the first match, none of which has the mobile, the first match,
  and the rest: the update replaces the first match alone, the deletion removes it alone,
  and nothing else in the store changes. When exactly one enquiry has the mobile, a second
  \<^verbatim>\<open>deleterequest\<close> after a first answers 404.
\<close>

theorem mobile_lookup_touches_first_match_only:
  assumes "connected st" and "r_mobile body = m"
  shows "(find (\<lambda>r. r_mobile r = m) (requests st) = None \<longrightarrow>
            updaterequest st body = (Error 404 ''Request not found'', st)
          \<and> deleterequest st m = (Error 404 ''Request not found'', st))
       \<and> (find (\<lambda>x. m_mobile x = m) (members st) = None \<longrightarrow>
            updatepassword st m p = (Error 404 ''Member not found'', st)
          \<and> cancelmember st m = (Error 404 ''Member not found'', st))
       \<and> (\<forall>d. find (\<lambda>r. r_mobile r = m) (requests st) = Some d \<longrightarrow>
            (\<exists>ys zs. requests st = ys @ d # zs \<and> (\<forall>y \<in> set ys. r_mobile y \<noteq> m) \<and> r_mobile d = m
               \<and> updaterequest st body =
                   (Json 200 (''Request updated successfully'', set_request body d),
                    st\<lparr>requests := ys @ set_request body d # zs\<rparr>)
               \<and> deleterequest st m =
                   (Json 200 ''Request deleted successfully'', st\<lparr>requests := ys @ zs\<rparr>)))
       \<and> (\<forall>d. find (\<lambda>x. m_mobile x = m) (members st) = Some d \<longrightarrow>
            (\<exists>ys zs. members st = ys @ d # zs \<and> (\<forall>y \<in> set ys. m_mobile y \<noteq> m) \<and> m_mobile d = m
               \<and> updatepassword st m p =
                   (Json 200 ''Password updated successfully'',
                    st\<lparr>members := ys @ d\<lparr>m_createpassword := Some p\<rparr> # zs\<rparr>)
               \<and> cancelmember st m =
                   (Json 200 ''Membership cancelled successfully'', st\<lparr>members := ys @ zs\<rparr>)))
       \<and> (length (filter (\<lambda>r. r_mobile r = m) (requests st)) = 1 \<longrightarrow>
            fst (deleterequest st m) = Json 200 ''Request deleted successfully''
          \<and> fst (deleterequest (snd (deleterequest st m)) m) = Error 404 ''Request not found'')"
proof (intro conjI allI impI)
  assume none: "find (\<lambda>r. r_mobile r = m) (requests st) = None"
  with assms show "updaterequest st body = (Error 404 ''Request not found'', st)"
    by (simp add: updaterequest_missing)
  from assms none show "deleterequest st m = (Error 404 ''Request not found'', st)"
    by (simp add: deleterequest_missing)
next
  assume none: "find (\<lambda>x. m_mobile x = m) (members st) = None"
  with assms show "updatepassword st m p = (Error 404 ''Member not found'', st)"
    by (simp add: updatepassword_missing)
  from assms none show "cancelmember st m = (Error 404 ''Member not found'', st)"
    by (simp add: cancelmember_missing)
next
  fix d
  assume found: "find (\<lambda>r. r_mobile r = m) (requests st) = Some d"
  from first_match_split [OF found, of "set_request body"] obtain ys zs where
    split: "requests st = ys @ d # zs" "\<forall>y \<in> set ys. r_mobile y \<noteq> m" "r_mobile d = m"
      "update_first (\<lambda>r. r_mobile r = m) (set_request body) (requests st)
         = ys @ set_request body d # zs"
      "delete_first (\<lambda>r. r_mobile r = m) (requests st) = ys @ zs"
    by blast
  from found assms have "find (\<lambda>r. r_mobile r = r_mobile body) (requests st) = Some d"
    by simp
  from updaterequest_found [OF assms(1) this] split(4) assms(2)
  have u: "updaterequest st body =
      (Json 200 (''Request updated successfully'', set_request body d),
       st\<lparr>requests := ys @ set_request body d # zs\<rparr>)"
    by simp
  from deleterequest_found [OF assms(1) found] split(5)
  have "deleterequest st m =
      (Json 200 ''Request deleted successfully'', st\<lparr>requests := ys @ zs\<rparr>)"
    by simp
  with split(1-3) u
  show "\<exists>ys zs. requests st = ys @ d # zs \<and> (\<forall>y \<in> set ys. r_mobile y \<noteq> m) \<and> r_mobile d = m
      \<and> updaterequest st body =
          (Json 200 (''Request updated successfully'', set_request body d),
           st\<lparr>requests := ys @ set_request body d # zs\<rparr>)
      \<and> deleterequest st m =
          (Json 200 ''Request deleted successfully'', st\<lparr>requests := ys @ zs\<rparr>)"
    by blast
next
  fix d
  assume found: "find (\<lambda>x. m_mobile x = m) (members st) = Some d"
  from first_match_split [OF found, of "\<lambda>x. x\<lparr>m_createpassword := Some p\<rparr>"] obtain ys zs where
    split: "members st = ys @ d # zs" "\<forall>y \<in> set ys. m_mobile y \<noteq> m" "m_mobile d = m"
      "update_first (\<lambda>x. m_mobile x = m) (\<lambda>x. x\<lparr>m_createpassword := Some p\<rparr>) (members st)
         = ys @ d\<lparr>m_createpassword := Some p\<rparr> # zs"
      "delete_first (\<lambda>x. m_mobile x = m) (members st) = ys @ zs"
    by blast
  from updatepassword_found [OF assms(1) found, of p] split(4)
  have u: "updatepassword st m p =
      (Json 200 ''Password updated successfully'',
       st\<lparr>members := ys @ d\<lparr>m_createpassword := Some p\<rparr> # zs\<rparr>)"
    by simp
  from cancelmember_found [OF assms(1) found] split(5)
  have "cancelmember st m =
      (Json 200 ''Membership cancelled successfully'', st\<lparr>members := ys @ zs\<rparr>)"
    by simp
  with split(1-3) u
  show "\<exists>ys zs. members st = ys @ d # zs \<and> (\<forall>y \<in> set ys. m_mobile y \<noteq> m) \<and> m_mobile d = m
      \<and> updatepassword st m p =
          (Json 200 ''Password updated successfully'',
           st\<lparr>members := ys @ d\<lparr>m_createpassword := Some p\<rparr> # zs\<rparr>)
      \<and> cancelmember st m =
          (Json 200 ''Membership cancelled successfully'', st\<lparr>members := ys @ zs\<rparr>)"
    by blast
next
  assume one: "length (filter (\<lambda>r. r_mobile r = m) (requests st)) = 1"
  from delete_twice_single_match [OF one] obtain d where
    found: "find (\<lambda>r. r_mobile r = m) (requests st) = Some d"
    and gone: "find (\<lambda>r. r_mobile r = m) (delete_first (\<lambda>r. r_mobile r = m) (requests st)) = None"
    by auto
  note first = deleterequest_found [OF assms(1) found]
  then show "fst (deleterequest st m) = Json 200 ''Request deleted successfully''"
    by simp
  from assms(1) gone
  have "deleterequest (st\<lparr>requests := delete_first (\<lambda>r. r_mobile r = m) (requests st)\<rparr>) m =
      (Error 404 ''Request not found'',
       st\<lparr>requests := delete_first (\<lambda>r. r_mobile r = m) (requests st)\<rparr>)"
    by (intro deleterequest_missing) simp_all
  with first show "fst (deleterequest (snd (deleterequest st m)) m) = Error 404 ''Request not found''"
    by simp
qed

text \<open>
  Two enquiries and two members share a mobile in the sample store; the catalogue-only
  store has neither; one enquiry has a mobile of its own.
\<close>

theorem mobile_lookup_touches_first_match_only_witness:
  "connected office \<and> r_mobile new_amount = Some 9876543210
   \<and> find (\<lambda>r. r_mobile r = Some 9876543210) (requests office) = Some enquiry_a
   \<and> find (\<lambda>x. m_mobile x = Some 9876543210) (members office) = Some member_a
   \<and> length (filter (\<lambda>r. r_mobile r = Some 9876543210) (requests office)) = 2
   \<and> (\<exists>ys zs. requests office = ys @ enquiry_a # zs
         \<and> updaterequest office new_amount =
             (Json 200 (''Request updated successfully'', set_request new_amount enquiry_a),
              office\<lparr>requests := ys @ set_request new_amount enquiry_a # zs\<rparr>)
         \<and> deleterequest office (Some 9876543210) =
             (Json 200 ''Request deleted successfully'', office\<lparr>requests := ys @ zs\<rparr>))
   \<and> (\<exists>ys zs. members office = ys @ member_a # zs
         \<and> updatepassword office (Some 9876543210) ''new-secret'' =
             (Json 200 ''Password updated successfully'',
              office\<lparr>members := ys @ member_a\<lparr>m_createpassword := Some ''new-secret''\<rparr> # zs\<rparr>)
         \<and> cancelmember office (Some 9876543210) =
             (Json 200 ''Membership cancelled successfully'', office\<lparr>members := ys @ zs\<rparr>))
   \<and> connected catalog_only \<and> find (\<lambda>r. r_mobile r = Some 9876543210) (requests catalog_only) = None
   \<and> find (\<lambda>x. m_mobile x = Some 9876543210) (members catalog_only) = None
   \<and> updaterequest catalog_only new_amount = (Error 404 ''Request not found'', catalog_only)
   \<and> deleterequest catalog_only (Some 9876543210) = (Error 404 ''Request not found'', catalog_only)
   \<and> updatepassword catalog_only (Some 9876543210) ''new-secret'' =
       (Error 404 ''Member not found'', catalog_only)
   \<and> cancelmember catalog_only (Some 9876543210) = (Error 404 ''Member not found'', catalog_only)
   \<and> length (filter (\<lambda>r. r_mobile r = Some 9123456780) (requests office)) = 1
   \<and> fst (deleterequest office (Some 9123456780)) = Json 200 ''Request deleted successfully''
   \<and> fst (deleterequest (snd (deleterequest office (Some 9123456780))) (Some 9123456780)) =
       Error 404 ''Request not found''"
proof -
  have c: "connected office" and b: "r_mobile new_amount = Some 9876543210"
    and fr: "find (\<lambda>r. r_mobile r = Some 9876543210) (requests office) = Some enquiry_a"
    and fm: "find (\<lambda>x. m_mobile x = Some 9876543210) (members office) = Some member_a"
    and two: "length (filter (\<lambda>r. r_mobile r = Some 9876543210) (requests office)) = 2"
    and one: "length (filter (\<lambda>r. r_mobile r = Some 9123456780) (requests office)) = 1"
    by (simp_all add: office_def new_amount_def enquiry_a_def enquiry_b_def enquiry_c_def
        member_a_def)
  have c': "connected catalog_only"
    and nr: "find (\<lambda>r. r_mobile r = Some 9876543210) (requests catalog_only) = None"
    and nm: "find (\<lambda>x. m_mobile x = Some 9876543210) (members catalog_only) = None"
    by (simp_all add: catalog_only_def)
  note dup = mobile_lookup_touches_first_match_only [OF c b, of "''new-secret''"]
  note absent = mobile_lookup_touches_first_match_only [OF c' b, of "''new-secret''"]
  note single = mobile_lookup_touches_first_match_only
    [OF c, of "new_amount\<lparr>r_mobile := Some 9123456780\<rparr>" "Some 9123456780" "''new-secret''"]
  from dup fr have 1: "\<exists>ys zs. requests office = ys @ enquiry_a # zs
         \<and> updaterequest office new_amount =
             (Json 200 (''Request updated successfully'', set_request new_amount enquiry_a),
              office\<lparr>requests := ys @ set_request new_amount enquiry_a # zs\<rparr>)
         \<and> deleterequest office (Some 9876543210) =
             (Json 200 ''Request deleted successfully'', office\<lparr>requests := ys @ zs\<rparr>)"
    by blast
  from dup fm have 2: "\<exists>ys zs. members office = ys @ member_a # zs
         \<and> updatepassword office (Some 9876543210) ''new-secret'' =
             (Json 200 ''Password updated successfully'',
              office\<lparr>members := ys @ member_a\<lparr>m_createpassword := Some ''new-secret''\<rparr> # zs\<rparr>)
         \<and> cancelmember office (Some 9876543210) =
             (Json 200 ''Membership cancelled successfully'', office\<lparr>members := ys @ zs\<rparr>)"
    by blast
  from absent nr nm have 3:
    "updaterequest catalog_only new_amount = (Error 404 ''Request not found'', catalog_only)"
    "deleterequest catalog_only (Some 9876543210) = (Error 404 ''Request not found'', catalog_only)"
    "updatepassword catalog_only (Some 9876543210) ''new-secret'' =
       (Error 404 ''Member not found'', catalog_only)"
    "cancelmember catalog_only (Some 9876543210) = (Error 404 ''Member not found'', catalog_only)"
    by blast+
  from single one have 4:
    "fst (deleterequest office (Some 9123456780)) = Json 200 ''Request deleted successfully''"
    "fst (deleterequest (snd (deleterequest office (Some 9123456780))) (Some 9123456780)) =
       Error 404 ''Request not found''"
    by simp_all
  from c b fr fm two 1 2 c' nr nm 3 one 4 show ?thesis by blast
qed

text \<open>
  C8. When the store answers, \<^verbatim>\<open>updatepassword\<close> answers 404 and leaves the store as it
  is when no member has the mobile. Otherwise the first member with the mobile is replaced
  by a member whose \<^verbatim>\<open>createpassword\<close> is the given string, as given, and whose mobile,
  email and occupation are the old ones; the rest of the store is unchanged.
\<close>

theorem updatepassword_sets_only_password:
  assumes "connected st"
  shows "(find (\<lambda>x. m_mobile x = mobile) (members st) = None \<longrightarrow>
            updatepassword st mobile p = (Error 404 ''Member not found'', st))
       \<and> (\<forall>d. find (\<lambda>x. m_mobile x = mobile) (members st) = Some d \<longrightarrow>
            (\<exists>d' ys zs.
               fst (updatepassword st mobile p) = Json 200 ''Password updated successfully''
             \<and> members st = ys @ d # zs
             \<and> snd (updatepassword st mobile p) = st\<lparr>members := ys @ d' # zs\<rparr>
             \<and> m_createpassword d' = Some p
             \<and> m_mobile d' = m_mobile d \<and> m_email d' = m_email d
             \<and> m_occupation d' = m_occupation d))"
proof (intro conjI allI impI)
  assume "find (\<lambda>x. m_mobile x = mobile) (members st) = None"
  with assms show "updatepassword st mobile p = (Error 404 ''Member not found'', st)"
    by (rule updatepassword_missing)
next
  fix d
  assume found: "find (\<lambda>x. m_mobile x = mobile) (members st) = Some d"
  from first_match_split [OF found, of "\<lambda>x. x\<lparr>m_createpassword := Some p\<rparr>"] obtain ys zs where
    split: "members st = ys @ d # zs"
      "update_first (\<lambda>x. m_mobile x = mobile) (\<lambda>x. x\<lparr>m_createpassword := Some p\<rparr>) (members st)
         = ys @ d\<lparr>m_createpassword := Some p\<rparr> # zs"
    by blast
  show "\<exists>d' ys zs.
          fst (updatepassword st mobile p) = Json 200 ''Password updated successfully''
        \<and> members st = ys @ d # zs
        \<and> snd (updatepassword st mobile p) = st\<lparr>members := ys @ d' # zs\<rparr>
        \<and> m_createpassword d' = Some p
        \<and> m_mobile d' = m_mobile d \<and> m_email d' = m_email d
        \<and> m_occupation d' = m_occupation d"
    using split updatepassword_found [OF assms found, of p]
    by (intro exI [of _ "d\<lparr>m_createpassword := Some p\<rparr>"] exI [of _ ys] exI [of _ zs]) simp
qed

text \<open>
  A member that is found, and a mobile that no member has.
\<close>

theorem updatepassword_sets_only_password_witness:
  "connected office
   \<and> find (\<lambda>x. m_mobile x = Some 9876543210) (members office) = Some member_a
   \<and> find (\<lambda>x. m_mobile x = Some 5) (members office) = None
   \<and> updatepassword office (Some 5) ''new-secret'' = (Error 404 ''Member not found'', office)
   \<and> fst (updatepassword office (Some 9876543210) ''new-secret'') =
       Json 200 ''Password updated successfully''
   \<and> (\<exists>d' ys zs. snd (updatepassword office (Some 9876543210) ''new-secret'') =
           office\<lparr>members := ys @ d' # zs\<rparr>
         \<and> m_createpassword d' = Some ''new-secret''
         \<and> m_email d' = Some ''asha@example.com'')"
proof -
  have c: "connected office"
    and f: "find (\<lambda>x. m_mobile x = Some 9876543210) (members office) = Some member_a"
    and n: "find (\<lambda>x. m_mobile x = Some 5) (members office) = None"
    and e: "m_email member_a = Some ''asha@example.com''"
    by (simp_all add: office_def member_a_def member_b_def)
  from updatepassword_sets_only_password [OF c, of "Some 5" "''new-secret''"] n
  have 1: "updatepassword office (Some 5) ''new-secret'' = (Error 404 ''Member not found'', office)"
    by blast
  from updatepassword_sets_only_password [OF c, of "Some 9876543210" "''new-secret''"] f
  obtain d' ys zs where 2:
    "fst (updatepassword office (Some 9876543210) ''new-secret'') =
       Json 200 ''Password updated successfully''"
    "snd (updatepassword office (Some 9876543210) ''new-secret'') =
       office\<lparr>members := ys @ d' # zs\<rparr>"
    "m_createpassword d' = Some ''new-secret''" "m_email d' = m_email member_a"
    by blast
  with e have "m_email d' = Some ''asha@example.com''" by simp
  with c f n 1 2 show ?thesis by blast
qed

text \<open>
  C10. When \<^verbatim>\<open>updaterequest\<close> succeeds, the mobile of the enquiry it returns is the
  body's mobile, by which the enquiry was found, and the mobiles of the stored enquiries are
  what they were before.
\<close>

theorem updaterequest_keeps_mobile:
  assumes "fst (updaterequest st body) = Json 200 (msg, d')"
  shows "r_mobile d' = r_mobile body
       \<and> map r_mobile (requests (snd (updaterequest st body))) = map r_mobile (requests st)"
proof -
  from assms have c: "connected st"
    by (cases "connected st") (simp_all add: updaterequest_def Request_findOneAndUpdate_def)
  with assms obtain d where
    found: "find (\<lambda>r. r_mobile r = r_mobile body) (requests st) = Some d"
    by (cases "find (\<lambda>r. r_mobile r = r_mobile body) (requests st)")
       (simp_all add: updaterequest_missing)
  from first_match_split [OF found, of id] have same: "r_mobile d = r_mobile body"
    by blast
  note upd = updaterequest_found [OF c found]
  with assms have "d' = set_request body d" by simp
  with same have 1: "r_mobile d' = r_mobile body"
    by (simp add: set_request_def override_same)
  have "map r_mobile (update_first (\<lambda>r. r_mobile r = r_mobile body) (set_request body) (requests st))
      = map r_mobile (requests st)"
    by (rule map_update_first) (simp add: set_request_def override_same)
  with upd have "map r_mobile (requests (snd (updaterequest st body))) = map r_mobile (requests st)"
    by simp
  with 1 show ?thesis by simp
qed

text \<open>
  The update of an amount in the sample store.
\<close>

theorem updaterequest_keeps_mobile_witness:
  "fst (updaterequest office new_amount) =
     Json 200 (''Request updated successfully'', enquiry_a\<lparr>r_amt := Some 60000\<rparr>)
   \<and> r_mobile (enquiry_a\<lparr>r_amt := Some 60000\<rparr>) = r_mobile new_amount
   \<and> map r_mobile (requests (snd (updaterequest office new_amount))) =
       map r_mobile (requests office)"
proof -
  have s: "fst (updaterequest office new_amount) =
     Json 200 (''Request updated successfully'', enquiry_a\<lparr>r_amt := Some 60000\<rparr>)"
    by (simp add: updaterequest_def Request_findOneAndUpdate_def set_request_def office_def
        new_amount_def enquiry_a_def enquiry_b_def)
  from updaterequest_keeps_mobile [OF s] s show ?thesis by simp
qed

end
